theory Spec2Isabelle
  imports Main "HOL-Library.Word"
begin

section \<open>Lucky draw: number allocation (App.tsx)\<close>

subsection \<open>Numbers, strings and settings\<close>

text \<open>
  The numbers the allocator handles are JavaScript numbers. The model keeps the integers and
  the one non-integer the code can produce, \<open>NaN\<close> (the remainder by a range of size 0).
\<close>

datatype jsnum = Num int | NaN

text \<open>JavaScript's \<open>%\<close>: the result has the sign of the dividend; the remainder by 0 is NaN.\<close>

definition js_rem :: "int \<Rightarrow> int \<Rightarrow> jsnum" where
  "js_rem a b = (if b = 0 then NaN else Num (sgn a * (\<bar>a\<bar> mod \<bar>b\<bar>)))"

definition digitChar :: "nat \<Rightarrow> char" where
  "digitChar d = ''0123456789'' ! (d mod 10)"

fun decimal :: "nat \<Rightarrow> string" where
  "decimal n = (if n < 10 then [digitChar n] else decimal (n div 10) @ [digitChar (n mod 10)])"

declare decimal.simps [simp del]

text \<open>\<open>Number.prototype.toString()\<close> on the values above.\<close>

fun toString :: "jsnum \<Rightarrow> string" where
  "toString (Num n) = (if n < 0 then CHR ''-'' # decimal (nat (- n)) else decimal (nat n))"
| "toString NaN = ''NaN''"

text \<open>
  A value as \<open>response.json()\<close> delivers it. The code hands an entry of the array of
  candidates on without looking at it, so the model keeps what an entry can be: an integer
  (\<open>JNum\<close>), a number that is no integer (\<open>JFraction\<close>), \<open>null\<close>, a string, or another value
  (a boolean, an array, an object: \<open>JOther\<close>). A value that is no integer is kept as the
  string that its \<open>toString()\<close> returns; an object whose own member \<open>toString\<close> hides the
  method makes the call throw, as \<open>null\<close> does, and is \<open>JNull\<close> here.
\<close>

datatype jsval = JNum jsnum | JFraction string | JNull | JString string | JOther string

text \<open>
  \<open>Set.prototype.has\<close> on a set of numbers that holds integers and \<open>NaN\<close> only (the
  results of \<open>parseInt\<close>): no other value is a member.
\<close>

fun has :: "jsnum set \<Rightarrow> jsval \<Rightarrow> bool" where
  "has taken (JNum n) = (n \<in> taken)"
| "has taken (JFraction s) = False"
| "has taken JNull = False"
| "has taken (JString s) = False"
| "has taken (JOther s) = False"

text \<open>
  The call \<open>result.toString()\<close> on a value: \<open>null\<close> has no method, and the call throws a
  \<open>TypeError\<close>.
\<close>

datatype Exception = TypeError

fun valueToString :: "jsval \<Rightarrow> Exception + string" where
  "valueToString (JNum n) = Inr (toString n)"
| "valueToString (JFraction s) = Inr s"
| "valueToString JNull = Inl TypeError"
| "valueToString (JString s) = Inr s"
| "valueToString (JOther s) = Inr s"

text \<open>\<open>String.prototype.padStart(targetLength, c)\<close> with a one-character filler.\<close>

definition padStart :: "nat \<Rightarrow> char \<Rightarrow> string \<Rightarrow> string" where
  "padStart n c s = replicate (n - length s) c @ s"

text \<open>The truthiness test \<open>if (s)\<close> on a value of type \<open>string | null\<close>.\<close>

fun truthy :: "string option \<Rightarrow> bool" where
  "truthy None = False"
| "truthy (Some s) = (s \<noteq> [])"

datatype RandomSource = LOCAL | RANDOM_ORG

record GlobalSettings =
  minNumber :: int
  maxNumber :: int
  excludePreviousWinners :: bool
  randomSource :: RandomSource
  randomOrgApiKey :: "string option"

text \<open>
  \<open>String.prototype.trim()\<close>. A character of the model is a code unit below 256; the white
  space and line terminators among them are the six ASCII blanks and the no-break space
  U+00A0.
\<close>

definition isSpace :: "char \<Rightarrow> bool" where
  "isSpace c = (c \<in> set [CHR 0x09, CHR 0x0A, CHR 0x0B, CHR 0x0C, CHR 0x0D, CHR 0x20, CHR 0xA0])"

definition trim :: "string \<Rightarrow> string" where
  "trim s = rev (dropWhile isSpace (rev (dropWhile isSpace s)))"

text \<open>
  \<open>settings.randomSource === RandomSource.RANDOM_ORG && settings.randomOrgApiKey?.trim()\<close>,
  read as a condition.
\<close>

definition useRandomOrg :: "GlobalSettings \<Rightarrow> bool" where
  "useRandomOrg st =
     (randomSource st = RANDOM_ORG \<and> truthy (map_option trim (randomOrgApiKey st)))"

subsection \<open>One draw: getRandomNumber\<close>

text \<open>
  What the outside world supplies to one call of \<open>getRandomNumber\<close>: the outcome of the
  request to the remote service and the 32-bit value that \<open>crypto.getRandomValues\<close> writes.
  The outcomes of the request follow the code path they take:
  the \<open>fetch\<close> promise rejects (the abort after 3000 ms, a network failure);
  \<open>response.json()\<close> rejects; the body is JSON \<open>null\<close>, so that reading \<open>data.error\<close> throws;
  \<open>data.error\<close> is set; \<open>data.result?.random?.data\<close> is missing or no array;
  or it is an array, with the entries that the reply holds.
\<close>

datatype RemoteReply =
    FetchRejected
  | JsonRejected
  | NullBody
  | ErrorReply
  | NoNumbers
  | Numbers "jsval list"

record Draw =
  reply :: RemoteReply
  random32 :: "32 word"

text \<open>The effects of the allocator that the claims speak about.\<close>

datatype AllocEffect = RemoteRequest | LocalDraw

definition getLocalRandom :: "int \<Rightarrow> int \<Rightarrow> 32 word \<Rightarrow> jsnum" where
  "getLocalRandom mn mx w =
     (case js_rem (uint w) (mx - mn + 1) of NaN \<Rightarrow> NaN | Num r \<Rightarrow> Num (r + mn))"

text \<open>
  The body of the \<open>try\<close> block once the request has been sent. \<open>Inl ()\<close> is an exception
  thrown inside the block; \<open>Inr (Some v)\<close> is \<open>return num\<close>, the first entry that the set
  does not hold, whatever it is; \<open>Inr None\<close> is one of the two \<open>return getLocalRandom()\<close> of
  the block.
\<close>

fun remoteBody :: "jsnum set \<Rightarrow> RemoteReply \<Rightarrow> unit + jsval option" where
  "remoteBody taken FetchRejected = Inl ()"
| "remoteBody taken JsonRejected = Inl ()"
| "remoteBody taken NullBody = Inl ()"
| "remoteBody taken ErrorReply = Inr None"
| "remoteBody taken NoNumbers = Inr None"
| "remoteBody taken (Numbers ns) = Inr (find (\<lambda>v. \<not> has taken v) ns)"

text \<open>
  \<open>getRandomNumber\<close>. Its declared result is a number; what it returns on the remote path is
  the entry of the reply as it came.
\<close>

definition getRandomNumber ::
  "GlobalSettings \<Rightarrow> int \<Rightarrow> int \<Rightarrow> jsnum set \<Rightarrow> Draw \<Rightarrow> jsval \<times> AllocEffect list" where
  "getRandomNumber st mn mx taken d =
     (if \<not> useRandomOrg st then (JNum (getLocalRandom mn mx (random32 d)), [LocalDraw])
      else case remoteBody taken (reply d) of
             Inr (Some v) \<Rightarrow> (v, [RemoteRequest])
           | Inr None \<Rightarrow> (JNum (getLocalRandom mn mx (random32 d)), [RemoteRequest, LocalDraw])
           | Inl _ \<Rightarrow> (JNum (getLocalRandom mn mx (random32 d)), [RemoteRequest, LocalDraw]))"

subsection \<open>The retry loop: generateRandomNumber\<close>

text \<open>
  The \<open>do ... while (!found)\<close> loop. \<open>env k\<close> is what the world supplies to the call of
  \<open>getRandomNumber\<close> made when \<open>attempts = k\<close>. The result is the value the loop leaves
  with (\<open>None\<close> for \<open>return null\<close>) and the effects of all calls made.
\<close>

function drawLoop ::
  "GlobalSettings \<Rightarrow> jsnum set \<Rightarrow> (nat \<Rightarrow> Draw) \<Rightarrow> int \<Rightarrow> nat \<Rightarrow> jsval option \<times> AllocEffect list" where
  "drawLoop st taken env maxAttempts attempts =
     (let r = getRandomNumber st (minNumber st) (maxNumber st) taken (env attempts) in
      if int (attempts + 1) > maxAttempts then (None, snd r)
      else if \<not> excludePreviousWinners st \<or> \<not> has taken (fst r) then (Some (fst r), snd r)
      else (fst (drawLoop st taken env maxAttempts (attempts + 1)),
            snd r @ snd (drawLoop st taken env maxAttempts (attempts + 1))))"
  by pat_completeness auto
termination
  by (relation "measure (\<lambda>(st, taken, env, maxAttempts, attempts). nat (maxAttempts + 1 - int attempts))")
     auto

declare drawLoop.simps [simp del]

text \<open>
  \<open>generateRandomNumber\<close>. \<open>winnerNumbers\<close> is the array
  \<open>winnersRef.current.map(w => parseInt(w.number, 10))\<close>, from which the code builds the set
  \<open>takenNumbers\<close>. The function returns \<open>null\<close> (\<open>Inr None\<close>) or the string of its last line,
  \<open>return result.toString()\<close>, unless that call throws (\<open>Inl\<close>): the line is outside every
  \<open>try\<close> block, and the exception reaches the caller, \<open>handleStartSpin\<close>.
\<close>

definition generateRandomNumber ::
  "GlobalSettings \<Rightarrow> jsnum list \<Rightarrow> (nat \<Rightarrow> Draw) \<Rightarrow>
     (Exception + string option) \<times> AllocEffect list" where
  "generateRandomNumber st winnerNumbers env =
     (let takenNumbers = set winnerNumbers;
          maxAttempts = (maxNumber st - minNumber st) * 5
      in if maxNumber st - minNumber st + 1 \<le> int (card takenNumbers) \<and> excludePreviousWinners st
         then (Inr None, [])
         else (let r = drawLoop st takenNumbers env maxAttempts 0
               in (case fst r of
                     None \<Rightarrow> Inr None
                   | Some result \<Rightarrow>
                       (case valueToString result of Inl e \<Rightarrow> Inl e | Inr s \<Rightarrow> Inr (Some s)),
                   snd r)))"

text \<open>The stream that supplies the same draw to every call.\<close>

definition always :: "Draw \<Rightarrow> nat \<Rightarrow> Draw" where
  "always d k = d"

text \<open>
  A number lies in the inclusive range \<open>[mn, mx]\<close>; a reply of the remote service keeps to
  the range it was asked for when its candidates, if it has any, are integers of the range
  (the request carries \<open>min\<close> and \<open>max\<close>; the code does not check the candidates it
  receives).
\<close>

fun inRange :: "int \<Rightarrow> int \<Rightarrow> jsnum \<Rightarrow> bool" where
  "inRange mn mx (Num v) = (mn \<le> v \<and> v \<le> mx)"
| "inRange mn mx NaN = False"

fun valueInRange :: "int \<Rightarrow> int \<Rightarrow> jsval \<Rightarrow> bool" where
  "valueInRange mn mx (JNum n) = inRange mn mx n"
| "valueInRange mn mx (JFraction s) = False"
| "valueInRange mn mx JNull = False"
| "valueInRange mn mx (JString s) = False"
| "valueInRange mn mx (JOther s) = False"

fun batchInRange :: "int \<Rightarrow> int \<Rightarrow> RemoteReply \<Rightarrow> bool" where
  "batchInRange mn mx (Numbers ns) = list_all (valueInRange mn mx) ns"
| "batchInRange mn mx other = True"

subsection \<open>Committing a winner: handleSpinFinished\<close>

record Winner =
  winnerId :: string
  prizeId :: string
  prizeName :: string
  number :: string
  timestamp :: int

datatype SpinMode = ALL_AT_ONCE | SEQUENTIAL | MANUAL

datatype ManualRevealMode = CLICK | TIMER

text \<open>
  Modelled from the spec: the enum \<open>AutoStopMode\<close> is imported from the types module by
  App.tsx and SlotMachine.tsx, and its declaration is not among the sources. The spec gives
  \<open>autoStopMode \<in> {TIMER, MANUAL}\<close>; the two members are named \<open>AUTO_STOP_TIMER\<close>
  and \<open>AUTO_STOP_MANUAL\<close> here, \<open>TIMER\<close> and \<open>MANUAL\<close> being members of the enums above.
\<close>

datatype AutoStopMode = AUTO_STOP_TIMER | AUTO_STOP_MANUAL

text \<open>
  The interface \<open>Prize\<close>. Its fields carry the prefix \<open>prize_\<close> where the component's
  props below have a field of the same name.
\<close>

record Prize =
  prize_id :: string
  prize_name :: string
  quantity :: nat
  prize_spinMode :: SpinMode
  prize_spinDuration :: int
  prize_digitCount :: nat
  prize_manualRevealMode :: "ManualRevealMode option"
  prize_autoStopMode :: "AutoStopMode option"

text \<open>
  The state of \<open>App\<close> that \<open>handleSpinFinished\<close> reads or writes. \<open>spinOscillatorRef\<close>
  tells whether the ref holds an audio element. The three state variables that the
  component receives as props carry the prefix \<open>app\<close>.
\<close>

record AppState =
  winners :: "Winner list"
  winnersRef :: "Winner list"
  appIsSpinning :: bool
  appIsManualSpinActive :: bool
  isManualSpinning :: bool
  appTargetNumber :: "string option"
  showConfetti :: bool
  spinOscillatorRef :: bool

datatype AppEffect = PauseSpinSound | PlayWin | HideConfettiAfter int

text \<open>
  \<open>handleSpinFinished\<close>; \<open>idNow\<close> and \<open>tsNow\<close> are the values of the two calls of
  \<open>Date.now()\<close>.
\<close>

definition handleSpinFinished :: "Prize \<Rightarrow> int \<Rightarrow> int \<Rightarrow> AppState \<Rightarrow> AppState \<times> AppEffect list" where
  "handleSpinFinished currentPrize idNow tsNow a =
     (let stopSound = (\<not> isManualSpinning a \<and> spinOscillatorRef a);
          a1 = a\<lparr>appIsSpinning := False, appIsManualSpinActive := False,
                 spinOscillatorRef := (if stopSound then False else spinOscillatorRef a),
                 showConfetti := True\<rparr>;
          a2 = (case appTargetNumber a of
                  None \<Rightarrow> a1
                | Some t \<Rightarrow>
                    if t = [] then a1
                    else (let newWinner =
                                \<lparr>winnerId = toString (Num idNow),
                                 prizeId = prize_id currentPrize,
                                 prizeName = prize_name currentPrize,
                                 number = padStart (prize_digitCount currentPrize) CHR ''0'' t,
                                 timestamp = tsNow\<rparr>
                          in a1\<lparr>winnersRef := newWinner # winnersRef a1,
                                winners := newWinner # winners a1\<rparr>))
      in (a2\<lparr>appTargetNumber := None\<rparr>,
          (if stopSound then [PauseSpinSound] else []) @ [PlayWin, HideConfettiAfter 5000]))"

section \<open>The digit reveal machine (SlotMachine.tsx)\<close>

subsection \<open>Props, state and notifications\<close>

text \<open>
  The props after destructuring, that is with the defaults \<open>ManualRevealMode.CLICK\<close> and
  \<open>AutoStopMode.MANUAL\<close> filled in and an absent \<open>isManualSpinActive\<close> read as false.
  App.tsx, the only user of the component, passes every callback, so the tests
  \<open>if (onStopDigit)\<close>, \<open>if (onDigitSpinStop)\<close>, \<open>newCount === 1 && onDigitSpinStart\<close> and
  \<open>!targetNumber && onStartedSpin\<close> are modelled with the callback present; a call of a
  callback is a notification in the result.
\<close>

record SlotMachineProps =
  targetNumber :: "string option"
  isSpinning :: bool
  digitCount :: nat
  spinMode :: SpinMode
  spinDuration :: int
  manualRevealMode :: ManualRevealMode
  autoStopMode :: AutoStopMode
  isManualSpinActive :: bool

text \<open>The five \<open>useState\<close> cells and the ref \<open>prevIsManualSpinActive\<close>.\<close>

record SlotMachineState =
  digitSpinningState :: "bool list"
  digitStoppedState :: "bool list"
  manualSpinStarted :: bool
  pendingClickIndex :: "nat option"
  spinningDigitCount :: int
  prevIsManualSpinActive :: bool

datatype Notification = Finished | StopDigit | StartedSpin | DigitSpinStart | DigitSpinStop bool

text \<open>
  Reading and writing an array of booleans the JavaScript way: a read past the end gives
  \<open>undefined\<close>, which is falsy; a write past the end extends the array, and the slots in
  between read as falsy. (The slots in between are holes until the array is copied, and
  \<open>every\<close> and \<open>some\<close> pass over holes; the model fills them with \<open>False\<close>. The digits
  clicked and the digits of the timers are those of the render, below \<open>digitCount\<close>.)
\<close>

definition readAt :: "bool list \<Rightarrow> nat \<Rightarrow> bool" where
  "readAt xs i = (i < length xs \<and> xs ! i)"

definition writeAt :: "bool list \<Rightarrow> nat \<Rightarrow> bool \<Rightarrow> bool list" where
  "writeAt xs i v =
     (if i < length xs then xs[i := v] else xs @ replicate (i - length xs) False @ [v])"

text \<open>\<open>Array(digitCount).fill(b)\<close> is \<open>replicate digitCount b\<close>.\<close>

definition initialState :: "SlotMachineProps \<Rightarrow> SlotMachineState" where
  "initialState p =
     \<lparr>digitSpinningState = replicate (digitCount p) False,
      digitStoppedState = replicate (digitCount p) False,
      manualSpinStarted = False,
      pendingClickIndex = None,
      spinningDigitCount = 0,
      prevIsManualSpinActive = isManualSpinActive p\<rparr>"

subsection \<open>Handlers\<close>

text \<open>
  A handler runs to completion on the state of the last render: what it reads from its
  closure and what its functional updates receive is the same state. The result is the
  state after the queued updates and the callbacks called, in the order of the calls: a
  callback that the handler calls itself comes before one that is called inside a
  functional update, which runs when the update is applied, at the next render.
\<close>

definition startDigitSpin :: "nat \<Rightarrow> SlotMachineState \<Rightarrow> SlotMachineState \<times> Notification list" where
  "startDigitSpin index q =
     (q\<lparr>digitSpinningState := writeAt (digitSpinningState q) index True,
        spinningDigitCount := spinningDigitCount q + 1\<rparr>,
      if spinningDigitCount q + 1 = 1 then [DigitSpinStart] else [])"

definition stopDigitSpin :: "nat \<Rightarrow> SlotMachineState \<Rightarrow> SlotMachineState \<times> Notification list" where
  "stopDigitSpin index q =
     (q\<lparr>digitSpinningState := writeAt (digitSpinningState q) index False,
        digitStoppedState := writeAt (digitStoppedState q) index True,
        spinningDigitCount := spinningDigitCount q - 1\<rparr>,
      [StopDigit, DigitSpinStop (spinningDigitCount q - 1 > 0)])"

definition handleDigitClick ::
  "SlotMachineProps \<Rightarrow> SlotMachineState \<Rightarrow> nat \<Rightarrow> SlotMachineState \<times> Notification list" where
  "handleDigitClick p s index =
     (if spinMode p \<noteq> MANUAL then (s, [])
      else if manualRevealMode p = TIMER then (s, [])
      else if readAt (digitSpinningState s) index then stopDigitSpin index s
      else (let allStopped = list_all (\<lambda>x. x) (digitStoppedState s) in
            if readAt (digitStoppedState s) index \<and> \<not> allStopped then (s, [])
            else if \<not> manualSpinStarted s \<or> allStopped then
              (let s1 = (if allStopped
                         then s\<lparr>digitStoppedState := replicate (digitCount p) False\<rparr> else s);
                   s2 = s1\<lparr>manualSpinStarted := True\<rparr>
               in if \<not> truthy (targetNumber p)
                  then (s2\<lparr>pendingClickIndex := Some index\<rparr>, [StartedSpin])
                  else startDigitSpin index s2)
            else if \<not> truthy (targetNumber p) then (s, [])
            else startDigitSpin index s))"

definition isDigitClickable :: "SlotMachineProps \<Rightarrow> SlotMachineState \<Rightarrow> nat \<Rightarrow> bool" where
  "isDigitClickable p s idx =
     (if spinMode p \<noteq> MANUAL then False
      else if manualRevealMode p = TIMER then False
      else if readAt (digitSpinningState s) idx then True
      else if list_ex (\<lambda>x. x) (digitSpinningState s) then False
      else if list_all (\<lambda>x. x) (digitStoppedState s) then True
      else if \<not> readAt (digitStoppedState s) idx then True
      else False)"

text \<open>
  A click on digit \<open>idx\<close>. The component renders the digits \<open>0 .. digitCount - 1\<close> and
  gives a digit its \<open>onClick\<close> only when \<open>isClickable\<close> holds.
\<close>

definition click :: "SlotMachineProps \<Rightarrow> SlotMachineState \<Rightarrow> nat \<Rightarrow> SlotMachineState \<times> Notification list" where
  "click p s idx =
     (if idx < digitCount p \<and> isDigitClickable p s idx then handleDigitClick p s idx else (s, []))"

definition revealResult :: "SlotMachineProps \<Rightarrow> SlotMachineState \<Rightarrow> SlotMachineState \<times> Notification list" where
  "revealResult p s =
     (if \<not> isSpinning p \<or> \<not> truthy (targetNumber p) then (s, [])
      else (s\<lparr>digitStoppedState := replicate (digitCount p) True\<rparr>, [StopDigit, Finished]))"

subsection \<open>Timers\<close>

text \<open>
  A callback handed to \<open>setTimeout\<close>, with what its closure captures: the index \<open>i\<close> of the
  loop and the \<open>digitCount\<close> of the render that ran the effect.
\<close>

datatype TimerCallback =
    ManualTimerStop nat
  | AllAtOnceStop nat
  | SequentialStop nat nat

fun fireTimer :: "TimerCallback \<Rightarrow> SlotMachineState \<Rightarrow> SlotMachineState \<times> Notification list" where
  "fireTimer (ManualTimerStop i) q =
     (q\<lparr>digitSpinningState := writeAt (digitSpinningState q) i False,
        digitStoppedState := writeAt (digitStoppedState q) i True,
        spinningDigitCount := spinningDigitCount q - 1\<rparr>,
      [StopDigit, DigitSpinStop (spinningDigitCount q - 1 > 0)])"
| "fireTimer (AllAtOnceStop n) q =
     (q\<lparr>digitStoppedState := replicate n True\<rparr>, [StopDigit, Finished])"
| "fireTimer (SequentialStop i n) q =
     (q\<lparr>digitStoppedState := writeAt (digitStoppedState q) i True\<rparr>,
      StopDigit # (if int i = int n - 1 then [Finished] else []))"

text \<open>
  The effect "Handle Stopping Logic for AUTO modes": the timeouts it registers, each with
  its delay in milliseconds, in the order of registration.
\<close>

definition autoStopEffect :: "SlotMachineProps \<Rightarrow> (int \<times> TimerCallback) list" where
  "autoStopEffect p =
     (if spinMode p = MANUAL then []
      else if \<not> isSpinning p \<or> \<not> truthy (targetNumber p) then []
      else if spinMode p = ALL_AT_ONCE then
        (if autoStopMode p = AUTO_STOP_MANUAL then []
         else [(spinDuration p, AllAtOnceStop (digitCount p))])
      else map (\<lambda>i. (spinDuration p * (int i + 1), SequentialStop i (digitCount p)))
               [0 ..< digitCount p])"

text \<open>
  The timer queue of the browser: a negative delay counts as 0, and the callbacks run in
  the order of their times, callbacks of equal time in the order of registration.
  \<open>elapse t ts s\<close> runs, from the state \<open>s\<close>, the callbacks of the timeouts \<open>ts\<close> that are
  due within \<open>t\<close> milliseconds of their registration.
\<close>

definition dueTime :: "int \<times> TimerCallback \<Rightarrow> int" where
  "dueTime tm = max 0 (fst tm)"

definition dueTimers :: "int \<Rightarrow> (int \<times> TimerCallback) list \<Rightarrow> TimerCallback list" where
  "dueTimers t ts = map snd (filter (\<lambda>tm. dueTime tm \<le> t) (sort_key dueTime ts))"

fun runCallbacks :: "TimerCallback list \<Rightarrow> SlotMachineState \<Rightarrow> SlotMachineState \<times> Notification list" where
  "runCallbacks [] s = (s, [])"
| "runCallbacks (cb # cbs) s =
     (let r = fireTimer cb s; r' = runCallbacks cbs (fst r) in (fst r', snd r @ snd r'))"

definition elapse ::
  "int \<Rightarrow> (int \<times> TimerCallback) list \<Rightarrow> SlotMachineState \<Rightarrow> SlotMachineState \<times> Notification list" where
  "elapse t ts s = runCallbacks (dueTimers t ts) s"

subsection \<open>Effects\<close>

text \<open>
  An effect runs after a render. It reads the props \<open>p\<close> and the state \<open>r\<close> of that render
  from its closure; what it sets goes to the update queue, here the state \<open>q\<close> that the
  effects of the same render have produced so far. A ref is read and written at once.
  The effects below are in the order of the source.
\<close>

definition resetEffect :: "SlotMachineProps \<Rightarrow> SlotMachineState \<Rightarrow> SlotMachineState" where
  "resetEffect p q =
     q\<lparr>digitSpinningState := replicate (digitCount p) False,
       digitStoppedState := replicate (digitCount p) False,
       manualSpinStarted := False,
       pendingClickIndex := None,
       spinningDigitCount := 0\<rparr>"

definition sessionStartEffect :: "SlotMachineProps \<Rightarrow> SlotMachineState \<Rightarrow> SlotMachineState" where
  "sessionStartEffect p q =
     (let q1 = (if spinMode p = MANUAL \<and> isManualSpinActive p \<and> \<not> prevIsManualSpinActive q
                then q\<lparr>digitSpinningState := replicate (digitCount p) False,
                       digitStoppedState := replicate (digitCount p) False,
                       manualSpinStarted := True,
                       spinningDigitCount := 0\<rparr>
                else q)
      in q1\<lparr>prevIsManualSpinActive := isManualSpinActive p\<rparr>)"

definition manualTimerEffect ::
  "SlotMachineProps \<Rightarrow> SlotMachineState \<Rightarrow> SlotMachineState \<times> Notification list" where
  "manualTimerEffect p q =
     (if spinMode p \<noteq> MANUAL \<or> manualRevealMode p \<noteq> TIMER then (q, [])
      else if \<not> isManualSpinActive p \<or> \<not> truthy (targetNumber p) then (q, [])
      else (q\<lparr>digitSpinningState := replicate (digitCount p) True,
              spinningDigitCount := int (digitCount p)\<rparr>,
            [DigitSpinStart]))"


definition pendingClickEffect ::
  "SlotMachineProps \<Rightarrow> SlotMachineState \<Rightarrow> SlotMachineState \<Rightarrow> SlotMachineState \<times> Notification list" where
  "pendingClickEffect p r q =
     (case pendingClickIndex r of
        None \<Rightarrow> (q, [])
      | Some index \<Rightarrow>
          if spinMode p = MANUAL \<and> truthy (targetNumber p)
          then (let x = startDigitSpin index q in ((fst x)\<lparr>pendingClickIndex := None\<rparr>, snd x))
          else (q, []))"

definition clearedTargetEffect ::
  "SlotMachineProps \<Rightarrow> SlotMachineState \<Rightarrow> SlotMachineState \<Rightarrow> SlotMachineState" where
  "clearedTargetEffect p r q =
     (if spinMode p = MANUAL \<and> targetNumber p = None \<and> manualSpinStarted r
      then q\<lparr>manualSpinStarted := False,
             digitSpinningState := replicate (digitCount p) False,
             digitStoppedState := replicate (digitCount p) False,
             spinningDigitCount := 0,
             pendingClickIndex := None\<rparr>
      else q)"

definition autoSyncEffect :: "SlotMachineProps \<Rightarrow> SlotMachineState \<Rightarrow> SlotMachineState" where
  "autoSyncEffect p q =
     (if spinMode p \<noteq> MANUAL
      then q\<lparr>digitStoppedState := replicate (digitCount p) (\<not> isSpinning p),
             digitSpinningState := replicate (digitCount p) (isSpinning p)\<rparr>
      else q)"

definition allStoppedEffect ::
  "SlotMachineProps \<Rightarrow> SlotMachineState \<Rightarrow> SlotMachineState \<Rightarrow> SlotMachineState \<times> Notification list" where
  "allStoppedEffect p r q =
     (if spinMode p = MANUAL \<and> manualSpinStarted r \<and> list_all (\<lambda>x. x) (digitStoppedState r)
      then (q\<lparr>manualSpinStarted := False\<rparr>, [Finished])
      else (q, []))"

subsection \<open>Renders\<close>

text \<open>
  An effect runs when one of its dependencies differs from the render before; at the
  mount (\<open>prev = None\<close>) every effect runs.
\<close>

definition changed :: "'p option \<Rightarrow> 'p \<Rightarrow> ('p \<Rightarrow> 'a) \<Rightarrow> bool" where
  "changed prev p f = (case prev of None \<Rightarrow> True | Some p0 \<Rightarrow> f p0 \<noteq> f p)"

text \<open>
  The effects of a render that the parent caused: the props are new, the state \<open>r\<close> is that
  of the render before. \<open>onFinished\<close> is a new function at every render of the parent, so
  the effect that depends on it runs each time.
\<close>

definition propsPass ::
  "SlotMachineProps option \<Rightarrow> SlotMachineProps \<Rightarrow> SlotMachineState \<Rightarrow> SlotMachineState \<times> Notification list" where
  "propsPass prev p r =
     (let cDigits = changed prev p digitCount;
          cMode = changed prev p spinMode;
          cActive = changed prev p isManualSpinActive;
          cTarget = changed prev p targetNumber;
          cReveal = changed prev p manualRevealMode;
          cDuration = changed prev p spinDuration;
          cSpinning = changed prev p isSpinning;
          q1 = (if cDigits \<or> cMode then resetEffect p r else r);
          q2 = (if cActive \<or> cMode \<or> cDigits then sessionStartEffect p q1 else q1);
          x3 = (if cActive \<or> cTarget \<or> cMode \<or> cReveal \<or> cDigits \<or> cDuration
                then manualTimerEffect p q2 else (q2, []));
          x4 = (if cTarget then pendingClickEffect p r (fst x3) else (fst x3, []));
          q5 = (if cTarget \<or> cMode \<or> cDigits then clearedTargetEffect p r (fst x4)
                else fst x4);
          q6 = (if cSpinning \<or> cDigits \<or> cMode then autoSyncEffect p q5 else q5);
          x7 = allStoppedEffect p r q6
      in (fst x7, snd x3 @ snd x4 @ snd x7))"

text \<open>
  The effects of a render that a change of state caused. Only two effects depend on the
  state. Each of them tests every value it reads, all of these are among its dependencies,
  and it does nothing when the test fails, so it is run here without comparing the
  dependencies.
\<close>

definition statePass ::
  "SlotMachineProps \<Rightarrow> SlotMachineState \<Rightarrow> SlotMachineState \<times> Notification list" where
  "statePass p r = allStoppedEffect p r (clearedTargetEffect p r r)"

subsection \<open>The component as a machine\<close>

text \<open>
  What can happen to a mounted component: the parent renders it with new props, a digit is
  clicked, the parent calls \<open>revealResult\<close> through the ref. Each runs to completion, the
  renders it causes included. (The callbacks of timers are \<open>fireTimer\<close> above.)
\<close>

datatype Event = ReceiveProps SlotMachineProps | ClickDigit nat | Reveal

definition mount :: "SlotMachineProps \<Rightarrow> (SlotMachineProps \<times> SlotMachineState) \<times> Notification list" where
  "mount p =
     (let x = propsPass None p (initialState p); y = statePass p (fst x)
      in ((p, fst y), snd x @ snd y))"

fun step ::
  "Event \<Rightarrow> SlotMachineProps \<times> SlotMachineState \<Rightarrow>
     (SlotMachineProps \<times> SlotMachineState) \<times> Notification list" where
  "step (ReceiveProps p') (p, s) =
     (let x = propsPass (Some p) p' s; y = statePass p' (fst x) in ((p', fst y), snd x @ snd y))"
| "step (ClickDigit idx) (p, s) =
     (let x = click p s idx; y = statePass p (fst x) in ((p, fst y), snd x @ snd y))"
| "step Reveal (p, s) =
     (let x = revealResult p s; y = statePass p (fst x) in ((p, fst y), snd x @ snd y))"

fun runEvents ::
  "Event list \<Rightarrow> SlotMachineProps \<times> SlotMachineState \<Rightarrow> SlotMachineProps \<times> SlotMachineState" where
  "runEvents [] m = m"
| "runEvents (e # es) m = runEvents es (fst (step e m))"

text \<open>The operator-paced click protocol: \<open>spinMode = MANUAL\<close> with \<open>manualRevealMode = CLICK\<close>.\<close>

definition clickMode :: "SlotMachineProps \<Rightarrow> bool" where
  "clickMode p = (spinMode p = MANUAL \<and> manualRevealMode p = CLICK)"

subsection \<open>The component with its timeouts\<close>













subsection \<open>Invariants of the operator-paced mode\<close>

text \<open>No digit is both spinning and stopped.\<close>

definition notBoth :: "SlotMachineState \<Rightarrow> bool" where
  "notBoth s =
     (\<forall>i. \<not> (readAt (digitSpinningState s) i \<and> readAt (digitStoppedState s) i))"





text \<open>
  No digit is stopped; a digit that spins in \<open>q\<close> was spinning or not stopped in \<open>r\<close>; and
  one of the two.
\<close>

definition allClear :: "SlotMachineState \<Rightarrow> bool" where
  "allClear s = (\<forall>j. \<not> readAt (digitStoppedState s) j)"

definition keeps :: "SlotMachineState \<Rightarrow> SlotMachineState \<Rightarrow> bool" where
  "keeps r q =
     (\<forall>i. readAt (digitSpinningState q) i \<longrightarrow>
          readAt (digitSpinningState r) i \<or> \<not> readAt (digitStoppedState r) i)"



section \<open>Properties of the allocator\<close>

lemma js_rem_nonneg:
  "0 \<le> a \<Longrightarrow> 0 < b \<Longrightarrow> js_rem a b = Num (a mod b)"
  by (cases "a = 0") (auto simp add: js_rem_def sgn_if)

lemma getLocalRandom_range:
  assumes "mn \<le> mx"
  shows "\<exists>v. getLocalRandom mn mx w = Num v \<and> mn \<le> v \<and> v \<le> mx"
proof -
  have pos: "0 < mx - mn + 1" using assms by simp
  have r: "js_rem (uint w) (mx - mn + 1) = Num (uint w mod (mx - mn + 1))"
    by (rule js_rem_nonneg) (use pos in simp_all)
  have "0 \<le> uint w mod (mx - mn + 1)" and "uint w mod (mx - mn + 1) < mx - mn + 1"
    using pos by (rule pos_mod_sign, rule pos_mod_bound)
  then show ?thesis
    unfolding getLocalRandom_def r by simp
qed

lemma find_Some_member: "find P xs = Some x \<Longrightarrow> x \<in> set xs \<and> P x"
  by (induction xs) (auto split: if_splits)

lemma valueInRange_Num:
  assumes "valueInRange mn mx x"
  shows "\<exists>v. x = JNum (Num v) \<and> mn \<le> v \<and> v \<le> mx"
proof (cases x)
  case (JNum n)
  then show ?thesis using assms by (cases n) auto
qed (use assms in auto)

lemma getRandomNumber_inRange:
  assumes "mn \<le> mx" and "batchInRange mn mx (reply d)"
  shows "valueInRange mn mx (fst (getRandomNumber st mn mx taken d))"
proof -
  obtain v where v: "getLocalRandom mn mx (random32 d) = Num v" "mn \<le> v" "v \<le> mx"
    using getLocalRandom_range [OF assms(1)] by blast
  show ?thesis
  proof (cases "reply d")
    case (Numbers ns)
    then show ?thesis using assms(2) v
      by (auto simp: getRandomNumber_def list_all_iff dest!: find_Some_member split: option.splits)
  qed (use v in \<open>simp_all add: getRandomNumber_def\<close>)
qed

text \<open>A value the loop returns passed the test of the loop and came from one of its draws.\<close>

lemma drawLoop_Some:
  "fst (drawLoop st taken env m a) = Some x \<Longrightarrow>
     (\<not> excludePreviousWinners st \<or> \<not> has taken x) \<and>
     (\<exists>k. x = fst (getRandomNumber st (minNumber st) (maxNumber st) taken (env k)))"
proof (induction st taken env m a rule: drawLoop.induct)
  case (1 st taken env maxAttempts attempts)
  show ?case
    using "1.prems" "1.IH"
    by (subst (asm) drawLoop.simps) (auto simp: Let_def split: if_splits)
qed

text \<open>A draw that passes the test within the first \<open>maxAttempts\<close> calls ends the loop with a value.\<close>

lemma drawLoop_finds:
  "a \<le> k \<Longrightarrow> int k < m \<Longrightarrow>
   \<not> excludePreviousWinners st \<or>
     \<not> has taken (fst (getRandomNumber st (minNumber st) (maxNumber st) taken (env k))) \<Longrightarrow>
   fst (drawLoop st taken env m a) \<noteq> None"
proof (induction st taken env m a rule: drawLoop.induct)
  case (1 st taken env maxAttempts attempts)
  show ?case
  proof (cases "\<not> excludePreviousWinners st \<or>
      \<not> has taken (fst (getRandomNumber st (minNumber st) (maxNumber st) taken (env attempts)))")
    case True
    then show ?thesis using "1.prems" by (subst drawLoop.simps) (auto simp: Let_def)
  next
    case False
    then have "attempts \<noteq> k" using "1.prems" by auto
    then have "attempts + 1 \<le> k" using "1.prems" by simp
    then show ?thesis using "1.prems" "1.IH" False
      by (subst drawLoop.simps) (auto simp: Let_def)
  qed
qed

text \<open>With replies that keep to the range, what the loop returns is an integer of the range.\<close>

lemma drawLoop_inRange:
  assumes "minNumber st \<le> maxNumber st"
    and "\<forall>k. batchInRange (minNumber st) (maxNumber st) (reply (env k))"
    and "fst (drawLoop st taken env m a) = Some x"
  shows "\<exists>v. x = JNum (Num v) \<and> minNumber st \<le> v \<and> v \<le> maxNumber st
           \<and> (excludePreviousWinners st \<longrightarrow> Num v \<notin> taken)"
proof -
  from drawLoop_Some [OF assms(3)] obtain k where
    ex: "\<not> excludePreviousWinners st \<or> \<not> has taken x"
    and k: "x = fst (getRandomNumber st (minNumber st) (maxNumber st) taken (env k))"
    by blast
  have "valueInRange (minNumber st) (maxNumber st) x"
    unfolding k using assms(1,2) by (intro getRandomNumber_inRange) auto
  then obtain v where "x = JNum (Num v)" "minNumber st \<le> v" "v \<le> maxNumber st"
    using valueInRange_Num by blast
  then show ?thesis using ex by auto
qed

text \<open>
  Claim C1, as the code has it. The claim says that the allocator always returns a number
  when the exclusion set is smaller than the range. The loop is bounded ("safety check to
  avoid infinite loops"), so a stream of draws that keeps hitting excluded numbers ends in
  \<open>null\<close>: with the range \<open>[0, 1]\<close>, the number 0 taken and every draw equal to 0, the
  allocator gives up.
\<close>

theorem generateRandomNumber_gives_up:
  "minNumber \<lparr>minNumber = 0, maxNumber = 1, excludePreviousWinners = True,
      randomSource = LOCAL, randomOrgApiKey = None\<rparr>
     \<le> maxNumber \<lparr>minNumber = 0, maxNumber = 1, excludePreviousWinners = True,
      randomSource = LOCAL, randomOrgApiKey = None\<rparr>
   \<and> int (card (set [Num 0])) < 1 - 0 + 1
   \<and> fst (generateRandomNumber
        \<lparr>minNumber = 0, maxNumber = 1, excludePreviousWinners = True,
         randomSource = LOCAL, randomOrgApiKey = None\<rparr>
        [Num 0] (always \<lparr>reply = NoNumbers, random32 = 0\<rparr>)) = Inr None"
  by (simp add: generateRandomNumber_def drawLoop.simps getRandomNumber_def useRandomOrg_def
      getLocalRandom_def js_rem_def always_def)

text \<open>
  Claim C1, amended. For \<open>min \<le> max\<close> and remote replies that keep to the range, the
  allocator returns (the function is total, and the call of \<open>toString\<close> does not throw), and
  what it returns is \<open>null\<close> or the decimal string of a number in \<open>[min, max]\<close> that, when
  previous winners are excluded, is not in the exclusion set. With an exclusion set smaller
  than the range it does return a number whenever one of the first \<open>5 * (max - min)\<close> draws
  passes the test of the loop.
\<close>

theorem generateRandomNumber_result:
  assumes "minNumber st \<le> maxNumber st"
    and "\<forall>k. batchInRange (minNumber st) (maxNumber st) (reply (env k))"
  shows "(\<exists>r. fst (generateRandomNumber st nums env) = Inr r)
       \<and> (\<forall>s. fst (generateRandomNumber st nums env) = Inr (Some s) \<longrightarrow>
            (\<exists>v. s = toString (Num v) \<and> minNumber st \<le> v \<and> v \<le> maxNumber st \<and>
                 (excludePreviousWinners st \<longrightarrow> Num v \<notin> set nums)))
       \<and> (\<forall>k. int (card (set nums)) < maxNumber st - minNumber st + 1 \<longrightarrow>
               int k < 5 * (maxNumber st - minNumber st) \<longrightarrow>
               (\<not> excludePreviousWinners st \<or>
                \<not> has (set nums)
                    (fst (getRandomNumber st (minNumber st) (maxNumber st) (set nums) (env k)))) \<longrightarrow>
               (\<exists>s. fst (generateRandomNumber st nums env) = Inr (Some s)))"
proof -
  let ?loop = "fst (drawLoop st (set nums) env ((maxNumber st - minNumber st) * 5) 0)"
  have num: "\<exists>v. x = JNum (Num v) \<and> minNumber st \<le> v \<and> v \<le> maxNumber st
           \<and> (excludePreviousWinners st \<longrightarrow> Num v \<notin> set nums)" if "?loop = Some x" for x
    using assms that by (rule drawLoop_inRange)
  have gen: "fst (generateRandomNumber st nums env) = Inr None
      \<or> (\<exists>x. ?loop = Some x \<and>
            fst (generateRandomNumber st nums env) =
              (case valueToString x of Inl e \<Rightarrow> Inl e | Inr s \<Rightarrow> Inr (Some s)))"
    by (cases ?loop) (simp_all add: generateRandomNumber_def Let_def)
  have total: "\<exists>r. fst (generateRandomNumber st nums env) = Inr r"
    using gen num by auto
  have range: "\<exists>v. s = toString (Num v) \<and> minNumber st \<le> v \<and> v \<le> maxNumber st \<and>
                 (excludePreviousWinners st \<longrightarrow> Num v \<notin> set nums)"
    if s: "fst (generateRandomNumber st nums env) = Inr (Some s)" for s
  proof -
    from gen s obtain x where x: "?loop = Some x"
      and g: "Inr (Some s) = (case valueToString x of Inl e \<Rightarrow> Inl e | Inr s \<Rightarrow> Inr (Some s))"
      by auto
    from num [OF x] obtain v where v: "x = JNum (Num v)" "minNumber st \<le> v" "v \<le> maxNumber st"
      "excludePreviousWinners st \<longrightarrow> Num v \<notin> set nums"
      by blast
    from g have "s = toString (Num v)" unfolding v(1) by simp
    then show ?thesis using v(2-4) by blast
  qed
  have finds: "\<exists>s. fst (generateRandomNumber st nums env) = Inr (Some s)"
    if c: "int (card (set nums)) < maxNumber st - minNumber st + 1"
      and k: "int k < 5 * (maxNumber st - minNumber st)"
      and ok: "\<not> excludePreviousWinners st \<or>
             \<not> has (set nums)
                 (fst (getRandomNumber st (minNumber st) (maxNumber st) (set nums) (env k)))"
    for k
  proof -
    have "?loop \<noteq> None"
      by (rule drawLoop_finds [where k = k]) (use k ok in \<open>simp_all add: mult.commute\<close>)
    then obtain x where x: "?loop = Some x" by auto
    from num [OF x] obtain v where "x = JNum (Num v)" by blast
    then show ?thesis
      using c x by (auto simp: generateRandomNumber_def Let_def)
  qed
  show ?thesis using total range finds by blast
qed

theorem generateRandomNumber_result_witness:
  "minNumber \<lparr>minNumber = 0, maxNumber = 133, excludePreviousWinners = True,
      randomSource = LOCAL, randomOrgApiKey = None\<rparr>
     \<le> maxNumber \<lparr>minNumber = 0, maxNumber = 133, excludePreviousWinners = True,
      randomSource = LOCAL, randomOrgApiKey = None\<rparr>
   \<and> (\<forall>k. batchInRange 0 133 (reply (always \<lparr>reply = NoNumbers, random32 = 139\<rparr> k)))
   \<and> int (card (set [Num 7])) < 133 - 0 + 1
   \<and> int 0 < 5 * (133 - 0)
   \<and> \<not> has (set [Num 7])
        (fst (getRandomNumber \<lparr>minNumber = 0, maxNumber = 133, excludePreviousWinners = True,
           randomSource = LOCAL, randomOrgApiKey = None\<rparr> 0 133 (set [Num 7])
           (always \<lparr>reply = NoNumbers, random32 = 139\<rparr> 0)))
   \<and> fst (generateRandomNumber
        \<lparr>minNumber = 0, maxNumber = 133, excludePreviousWinners = True,
         randomSource = LOCAL, randomOrgApiKey = None\<rparr>
        [Num 7] (always \<lparr>reply = NoNumbers, random32 = 139\<rparr>)) = Inr (Some ''5'')
   \<and> (\<exists>v. ''5'' = toString (Num v) \<and> 0 \<le> v \<and> v \<le> 133 \<and> Num v \<notin> set [Num 7])"
proof -
  let ?st = "\<lparr>minNumber = 0, maxNumber = 133, excludePreviousWinners = True,
      randomSource = LOCAL, randomOrgApiKey = None\<rparr>"
  let ?env = "always \<lparr>reply = NoNumbers, random32 = 139\<rparr>"
  have h1: "minNumber ?st \<le> maxNumber ?st" by simp
  have h2: "\<forall>k. batchInRange (minNumber ?st) (maxNumber ?st) (reply (?env k))"
    by (simp add: always_def)
  have r: "fst (generateRandomNumber ?st [Num 7] ?env) = Inr (Some ''5'')"
    by (simp add: generateRandomNumber_def drawLoop.simps getRandomNumber_def useRandomOrg_def
        getLocalRandom_def js_rem_def always_def decimal.simps digitChar_def)
  have g: "\<not> has (set [Num 7]) (fst (getRandomNumber ?st 0 133 (set [Num 7]) (?env 0)))"
    by (simp add: getRandomNumber_def useRandomOrg_def getLocalRandom_def js_rem_def always_def)
  from generateRandomNumber_result [OF h1 h2, of "[Num 7]"] r
  have "\<exists>v. ''5'' = toString (Num v) \<and> 0 \<le> v \<and> v \<le> 133 \<and> Num v \<notin> set [Num 7]"
    by simp
  then show ?thesis using r g h2 by simp
qed

text \<open>
  Claim C4. When previous winners are excluded and the exclusion set has at least as many
  elements as the range, the allocator returns \<open>null\<close> at once: no request is sent and no
  local number is drawn.
\<close>

theorem pool_exhausted:
  assumes "excludePreviousWinners st"
    and "maxNumber st - minNumber st + 1 \<le> int (card (set nums))"
  shows "generateRandomNumber st nums env = (Inr None, [])"
  using assms by (simp add: generateRandomNumber_def)

theorem pool_exhausted_witness:
  "excludePreviousWinners \<lparr>minNumber = 0, maxNumber = 1, excludePreviousWinners = True,
      randomSource = RANDOM_ORG, randomOrgApiKey = Some ''key''\<rparr>
   \<and> 1 - 0 + 1 \<le> int (card (set [Num 0, Num 1]))
   \<and> generateRandomNumber \<lparr>minNumber = 0, maxNumber = 1, excludePreviousWinners = True,
      randomSource = RANDOM_ORG, randomOrgApiKey = Some ''key''\<rparr> [Num 0, Num 1]
      (always \<lparr>reply = Numbers [JNum (Num 1)], random32 = 1\<rparr>) = (Inr None, [])"
  using pool_exhausted [of "\<lparr>minNumber = 0, maxNumber = 1, excludePreviousWinners = True,
      randomSource = RANDOM_ORG, randomOrgApiKey = Some ''key''\<rparr>" "[Num 0, Num 1]"
      "always \<lparr>reply = Numbers [JNum (Num 1)], random32 = 1\<rparr>"]
  by simp

text \<open>
  Claim C3, where the code departs from it. The claim gives the loop \<open>5 * (max - min + 1)\<close>
  attempts and lets it return \<open>null\<close> only when they are used up. The code sets
  \<open>maxAttempts = (maxNumber - minNumber) * 5\<close> and tests \<open>attempts > maxAttempts\<close> after a
  draw even when the draw was accepted. With the range \<open>[5, 5]\<close> and nobody drawn yet, the
  first draw is 5, which is free, and the allocator still returns \<open>null\<close> after that one
  attempt.
\<close>

theorem single_number_range:
  "getRandomNumber \<lparr>minNumber = 5, maxNumber = 5, excludePreviousWinners = True,
      randomSource = LOCAL, randomOrgApiKey = None\<rparr> 5 5 (set [])
      (always \<lparr>reply = NoNumbers, random32 = 0\<rparr> 0) = (JNum (Num 5), [LocalDraw])
   \<and> generateRandomNumber \<lparr>minNumber = 5, maxNumber = 5, excludePreviousWinners = True,
      randomSource = LOCAL, randomOrgApiKey = None\<rparr> []
      (always \<lparr>reply = NoNumbers, random32 = 0\<rparr>) = (Inr None, [LocalDraw])"
  by (simp add: generateRandomNumber_def drawLoop.simps getRandomNumber_def useRandomOrg_def
      getLocalRandom_def js_rem_def always_def)

text \<open>
  Claim C8, where the code departs from it. The claim says that every malformed response
  makes the allocator fall through to local generation and that the remote path never
  raises an error. \<open>getRandomNumber\<close> tests that the reply has no error and that its data
  are an array, and then returns the first entry that is not an excluded number without
  testing that it is a number. With the remote source selected, a key set and the reply
  \<open>[null]\<close>, it returns \<open>null\<close> after the one request, with no local draw; the loop accepts
  it, and \<open>result.toString()\<close> throws a \<open>TypeError\<close> to the caller. With the reply
  \<open>["abc"]\<close> the allocator returns \<open>abc\<close> as the number drawn.
\<close>

theorem malformed_candidate_no_fallback:
  "useRandomOrg \<lparr>minNumber = 0, maxNumber = 133, excludePreviousWinners = True,
      randomSource = RANDOM_ORG, randomOrgApiKey = Some ''key''\<rparr>
   \<and> getRandomNumber \<lparr>minNumber = 0, maxNumber = 133, excludePreviousWinners = True,
      randomSource = RANDOM_ORG, randomOrgApiKey = Some ''key''\<rparr> 0 133 (set [])
      \<lparr>reply = Numbers [JNull], random32 = 141\<rparr> = (JNull, [RemoteRequest])
   \<and> generateRandomNumber \<lparr>minNumber = 0, maxNumber = 133, excludePreviousWinners = True,
      randomSource = RANDOM_ORG, randomOrgApiKey = Some ''key''\<rparr> []
      (always \<lparr>reply = Numbers [JNull], random32 = 141\<rparr>) = (Inl TypeError, [RemoteRequest])
   \<and> generateRandomNumber \<lparr>minNumber = 0, maxNumber = 133, excludePreviousWinners = True,
      randomSource = RANDOM_ORG, randomOrgApiKey = Some ''key''\<rparr> []
      (always \<lparr>reply = Numbers [JString ''abc''], random32 = 141\<rparr>)
        = (Inr (Some ''abc''), [RemoteRequest])"
  by (simp add: generateRandomNumber_def drawLoop.simps getRandomNumber_def useRandomOrg_def
      trim_def isSpace_def always_def)

text \<open>Draws that agree give loops that agree.\<close>

lemma drawLoop_same_draws:
  assumes "minNumber st' = minNumber st" and "maxNumber st' = maxNumber st"
    and "excludePreviousWinners st' = excludePreviousWinners st"
    and "\<forall>k. fst (getRandomNumber st' (minNumber st) (maxNumber st) taken (env k)) =
             fst (getRandomNumber st (minNumber st) (maxNumber st) taken (env k))"
  shows "fst (drawLoop st' taken env m a) = fst (drawLoop st taken env m a)"
  using assms
proof (induction st taken env m a rule: drawLoop.induct)
  case (1 st taken env maxAttempts attempts)
  have same: "fst (getRandomNumber st' (minNumber st) (maxNumber st) taken (env attempts)) =
      fst (getRandomNumber st (minNumber st) (maxNumber st) taken (env attempts))"
    using "1.prems"(4) by simp
  show ?case
  proof (cases "int (attempts + 1) > maxAttempts")
    case True
    then show ?thesis
      by (subst drawLoop.simps, subst (2) drawLoop.simps) (simp add: Let_def)
  next
    case False
    show ?thesis
    proof (cases "\<not> excludePreviousWinners st \<or>
        \<not> has taken (fst (getRandomNumber st (minNumber st) (maxNumber st) taken (env attempts)))")
      case True
      then show ?thesis
        using False same "1.prems"(1-3)
        by (subst drawLoop.simps, subst (2) drawLoop.simps) (auto simp: Let_def)
    next
      case nf: False
      have "fst (drawLoop st' taken env maxAttempts (attempts + 1)) =
          fst (drawLoop st taken env maxAttempts (attempts + 1))"
        using False nf "1.prems" by (intro "1.IH") auto
      then show ?thesis
        using False nf same "1.prems"(1-3)
        by (subst drawLoop.simps, subst (2) drawLoop.simps) (auto simp: Let_def)
    qed
  qed
qed

lemma getRandomNumber_local:
  "getRandomNumber (st\<lparr>randomSource := LOCAL\<rparr>) mn mx taken d =
     (JNum (getLocalRandom mn mx (random32 d)), [LocalDraw])"
  by (simp add: getRandomNumber_def useRandomOrg_def)

text \<open>
  The failures that the code does detect: the request is rejected, which is what the abort
  after 3000 ms and a transport error do; the body cannot be read; the reply carries an
  error; the reply has no array of candidates; every candidate is an excluded number. Each
  of them makes \<open>getRandomNumber\<close> return the local draw, the same number as with the local
  source selected, and for \<open>min \<le> max\<close> an integer of the range. When every request fails
  in one of these ways, the allocator as a whole returns what it returns with the local
  source.
\<close>

lemma detected_failure_falls_back:
  assumes "useRandomOrg st" and "mn \<le> mx"
    and "reply d \<in> {FetchRejected, JsonRejected, NullBody, ErrorReply, NoNumbers} \<or>
         (\<exists>ns. reply d = Numbers ns \<and> (\<forall>v \<in> set ns. has taken v))"
  shows "getRandomNumber st mn mx taken d =
           (JNum (getLocalRandom mn mx (random32 d)), [RemoteRequest, LocalDraw])"
    and "fst (getRandomNumber st mn mx taken d) =
           fst (getRandomNumber (st\<lparr>randomSource := LOCAL\<rparr>) mn mx taken d)"
    and "\<exists>v. fst (getRandomNumber st mn mx taken d) = JNum (Num v) \<and> mn \<le> v \<and> v \<le> mx"
proof -
  have none: "find (\<lambda>v. \<not> has taken v) ns = None" if "\<forall>v \<in> set ns. has taken v" for ns
    using that by (auto simp: find_None_iff)
  show 1: "getRandomNumber st mn mx taken d =
      (JNum (getLocalRandom mn mx (random32 d)), [RemoteRequest, LocalDraw])"
    using assms(1,3) by (auto simp: getRandomNumber_def none)
  show "fst (getRandomNumber st mn mx taken d) =
      fst (getRandomNumber (st\<lparr>randomSource := LOCAL\<rparr>) mn mx taken d)"
    by (simp add: 1 getRandomNumber_local)
  show "\<exists>v. fst (getRandomNumber st mn mx taken d) = JNum (Num v) \<and> mn \<le> v \<and> v \<le> mx"
    using getLocalRandom_range [OF assms(2), of "random32 d"] by (simp add: 1)
qed

lemma detected_failures_as_local:
  assumes "useRandomOrg st"
    and "\<forall>k. reply (env k) \<in> {FetchRejected, JsonRejected, NullBody, ErrorReply, NoNumbers} \<or>
             (\<exists>ns. reply (env k) = Numbers ns \<and> (\<forall>v \<in> set ns. has (set nums) v))"
  shows "fst (generateRandomNumber st nums env) =
           fst (generateRandomNumber (st\<lparr>randomSource := LOCAL\<rparr>) nums env)"
proof -
  have none: "find (\<lambda>v. \<not> has taken v) ns = None" if "\<forall>v \<in> set ns. has taken v" for ns taken
    using that by (auto simp: find_None_iff)
  have "fst (getRandomNumber (st\<lparr>randomSource := LOCAL\<rparr>) (minNumber st) (maxNumber st) (set nums) (env k)) =
        fst (getRandomNumber st (minNumber st) (maxNumber st) (set nums) (env k))" for k
    using assms(1) assms(2) [rule_format, of k]
    by (auto simp: getRandomNumber_local getRandomNumber_def none)
  then have "fst (drawLoop (st\<lparr>randomSource := LOCAL\<rparr>) (set nums) env m 0) =
      fst (drawLoop st (set nums) env m 0)" for m
    by (intro drawLoop_same_draws) simp_all
  then show ?thesis
    by (simp add: generateRandomNumber_def Let_def)
qed

section \<open>Properties of the commit\<close>

lemma decimal_nonempty: "decimal n \<noteq> []"
  by (subst decimal.simps) simp

lemma toString_nonempty: "toString x \<noteq> []"
  by (cases x) (simp_all add: decimal_nonempty)

text \<open>
  Claim C9. The winner that \<open>handleSpinFinished\<close> records for a target number that is the
  decimal string of the allocated value carries that string padded with zeros on the left to
  the \<open>digitCount\<close> of the prize: the value 7 with three digits is recorded as \<open>007\<close>.
\<close>

theorem winner_number_padded:
  assumes "appTargetNumber a = Some (toString (Num v))"
  shows "\<exists>w. winners (fst (handleSpinFinished currentPrize idNow tsNow a)) = w # winners a
           \<and> winnersRef (fst (handleSpinFinished currentPrize idNow tsNow a)) = w # winnersRef a
           \<and> number w =
               replicate (prize_digitCount currentPrize - length (toString (Num v))) CHR ''0''
                 @ toString (Num v)
           \<and> prize_digitCount currentPrize \<le> length (number w)"
  using assms toString_nonempty [of "Num v"]
  by (simp add: handleSpinFinished_def Let_def padStart_def)

theorem winner_number_padded_witness:
  "appTargetNumber \<lparr>winners = [], winnersRef = [], appIsSpinning = True,
       appIsManualSpinActive = False, isManualSpinning = False,
       appTargetNumber = Some ''7'', showConfetti = False, spinOscillatorRef = True\<rparr>
     = Some (toString (Num 7))
   \<and> map number (winners (fst (handleSpinFinished
       \<lparr>prize_id = ''kk-1'', prize_name = ''KK'', quantity = 6, prize_spinMode = ALL_AT_ONCE,
        prize_spinDuration = 5000, prize_digitCount = 3, prize_manualRevealMode = None,
        prize_autoStopMode = Some AUTO_STOP_MANUAL\<rparr> 1000 1000
       \<lparr>winners = [], winnersRef = [], appIsSpinning = True,
        appIsManualSpinActive = False, isManualSpinning = False,
        appTargetNumber = Some ''7'', showConfetti = False, spinOscillatorRef = True\<rparr>))) = [''007'']"
proof -
  let ?a = "\<lparr>winners = [], winnersRef = [], appIsSpinning = True,
       appIsManualSpinActive = False, isManualSpinning = False,
       appTargetNumber = Some ''7'', showConfetti = False, spinOscillatorRef = True\<rparr>"
  let ?p = "\<lparr>prize_id = ''kk-1'', prize_name = ''KK'', quantity = 6, prize_spinMode = ALL_AT_ONCE,
        prize_spinDuration = 5000, prize_digitCount = 3, prize_manualRevealMode = None,
        prize_autoStopMode = Some AUTO_STOP_MANUAL\<rparr>"
  have d: "decimal 7 = ''7''"
    by (simp add: decimal.simps digitChar_def)
  have h: "appTargetNumber ?a = Some (toString (Num 7))"
    by (simp add: d)
  from winner_number_padded [OF h, of ?p 1000 1000]
  show ?thesis by (auto simp: d numeral_2_eq_2)
qed

text \<open>
  Claim C10. When \<open>handleSpinFinished\<close> runs with no target number, the list of winners
  stays as it is; the flags of the session are reset, the win sound is played and the
  confetti is shown all the same.
\<close>

theorem handleSpinFinished_without_target:
  assumes "appTargetNumber a = None"
  shows "winners (fst (handleSpinFinished currentPrize idNow tsNow a)) = winners a
       \<and> winnersRef (fst (handleSpinFinished currentPrize idNow tsNow a)) = winnersRef a
       \<and> \<not> appIsSpinning (fst (handleSpinFinished currentPrize idNow tsNow a))
       \<and> \<not> appIsManualSpinActive (fst (handleSpinFinished currentPrize idNow tsNow a))
       \<and> showConfetti (fst (handleSpinFinished currentPrize idNow tsNow a))
       \<and> PlayWin \<in> set (snd (handleSpinFinished currentPrize idNow tsNow a))"
  using assms by (simp add: handleSpinFinished_def Let_def)

theorem handleSpinFinished_without_target_witness:
  "appTargetNumber \<lparr>winners = [], winnersRef = [], appIsSpinning = True,
       appIsManualSpinActive = True, isManualSpinning = False,
       appTargetNumber = None, showConfetti = False, spinOscillatorRef = True\<rparr> = None
   \<and> handleSpinFinished
       \<lparr>prize_id = ''kk-1'', prize_name = ''KK'', quantity = 6, prize_spinMode = ALL_AT_ONCE,
        prize_spinDuration = 5000, prize_digitCount = 3, prize_manualRevealMode = None,
        prize_autoStopMode = Some AUTO_STOP_MANUAL\<rparr> 1000 1000
       \<lparr>winners = [], winnersRef = [], appIsSpinning = True,
        appIsManualSpinActive = True, isManualSpinning = False,
        appTargetNumber = None, showConfetti = False, spinOscillatorRef = True\<rparr>
     = (\<lparr>winners = [], winnersRef = [], appIsSpinning = False,
        appIsManualSpinActive = False, isManualSpinning = False,
        appTargetNumber = None, showConfetti = True, spinOscillatorRef = False\<rparr>,
        [PauseSpinSound, PlayWin, HideConfettiAfter 5000])"
  using handleSpinFinished_without_target [of "\<lparr>winners = [], winnersRef = [], appIsSpinning = True,
       appIsManualSpinActive = True, isManualSpinning = False,
       appTargetNumber = None, showConfetti = False, spinOscillatorRef = True\<rparr>"]
  by (simp add: handleSpinFinished_def)

section \<open>Properties of the digit reveal machine\<close>

subsection \<open>Arrays\<close>

lemma readAt_writeAt: "readAt (writeAt xs i v) j = (if j = i then v else readAt xs j)"
  by (auto simp: readAt_def writeAt_def nth_append nth_Cons')



subsection \<open>Reveal on request\<close>

lemma statePass_auto: "spinMode p \<noteq> MANUAL \<Longrightarrow> statePass p s = (s, [])"
  by (simp add: statePass_def allStoppedEffect_def clearedTargetEffect_def)

text \<open>
  Claim C6. In \<open>ALL_AT_ONCE\<close> mode with the manual stop, \<open>revealResult\<close> changes nothing and
  notifies nobody while the component is not spinning or has no target number; when it
  spins and has one, a single call stops all digits at once and calls \<open>onFinished\<close> exactly
  once. No timer is registered in this mode, so nothing else completes the session.
\<close>

theorem reveal_all_at_once:
  assumes "spinMode p = ALL_AT_ONCE" and "autoStopMode p = AUTO_STOP_MANUAL"
  shows "(\<not> isSpinning p \<or> \<not> truthy (targetNumber p) \<longrightarrow> step Reveal (p, s) = ((p, s), []))
       \<and> (isSpinning p \<and> truthy (targetNumber p) \<longrightarrow>
            step Reveal (p, s) =
              ((p, s\<lparr>digitStoppedState := replicate (digitCount p) True\<rparr>), [StopDigit, Finished])
            \<and> (\<forall>i < digitCount p. readAt (digitStoppedState (snd (fst (step Reveal (p, s))))) i)
            \<and> count_list (snd (step Reveal (p, s))) Finished = 1)
       \<and> autoStopEffect p = []"
  using assms
  by (auto simp: statePass_auto revealResult_def autoStopEffect_def readAt_def Let_def)

theorem reveal_all_at_once_witness:
  "spinMode \<lparr>targetNumber = Some ''042'', isSpinning = True, digitCount = 3,
       spinMode = ALL_AT_ONCE, spinDuration = 5000, manualRevealMode = CLICK,
       autoStopMode = AUTO_STOP_MANUAL, isManualSpinActive = False\<rparr> = ALL_AT_ONCE
   \<and> autoStopMode \<lparr>targetNumber = Some ''042'', isSpinning = True, digitCount = 3,
       spinMode = ALL_AT_ONCE, spinDuration = 5000, manualRevealMode = CLICK,
       autoStopMode = AUTO_STOP_MANUAL, isManualSpinActive = False\<rparr> = AUTO_STOP_MANUAL
   \<and> step Reveal
        (\<lparr>targetNumber = Some ''042'', isSpinning = True, digitCount = 3,
          spinMode = ALL_AT_ONCE, spinDuration = 5000, manualRevealMode = CLICK,
          autoStopMode = AUTO_STOP_MANUAL, isManualSpinActive = False\<rparr>,
         \<lparr>digitSpinningState = [True, True, True], digitStoppedState = [False, False, False],
          manualSpinStarted = False, pendingClickIndex = None, spinningDigitCount = 0,
          prevIsManualSpinActive = False\<rparr>)
      = ((\<lparr>targetNumber = Some ''042'', isSpinning = True, digitCount = 3,
          spinMode = ALL_AT_ONCE, spinDuration = 5000, manualRevealMode = CLICK,
          autoStopMode = AUTO_STOP_MANUAL, isManualSpinActive = False\<rparr>,
         \<lparr>digitSpinningState = [True, True, True], digitStoppedState = [True, True, True],
          manualSpinStarted = False, pendingClickIndex = None, spinningDigitCount = 0,
          prevIsManualSpinActive = False\<rparr>), [StopDigit, Finished])
   \<and> step Reveal
        (\<lparr>targetNumber = None, isSpinning = True, digitCount = 3,
          spinMode = ALL_AT_ONCE, spinDuration = 5000, manualRevealMode = CLICK,
          autoStopMode = AUTO_STOP_MANUAL, isManualSpinActive = False\<rparr>,
         \<lparr>digitSpinningState = [True, True, True], digitStoppedState = [False, False, False],
          manualSpinStarted = False, pendingClickIndex = None, spinningDigitCount = 0,
          prevIsManualSpinActive = False\<rparr>)
      = ((\<lparr>targetNumber = None, isSpinning = True, digitCount = 3,
          spinMode = ALL_AT_ONCE, spinDuration = 5000, manualRevealMode = CLICK,
          autoStopMode = AUTO_STOP_MANUAL, isManualSpinActive = False\<rparr>,
         \<lparr>digitSpinningState = [True, True, True], digitStoppedState = [False, False, False],
          manualSpinStarted = False, pendingClickIndex = None, spinningDigitCount = 0,
          prevIsManualSpinActive = False\<rparr>), [])"
proof -
  let ?b = "\<lparr>targetNumber = Some ''042'', isSpinning = True, digitCount = 3,
       spinMode = ALL_AT_ONCE, spinDuration = 5000, manualRevealMode = CLICK,
       autoStopMode = AUTO_STOP_MANUAL, isManualSpinActive = False\<rparr>"
  let ?c = "\<lparr>targetNumber = None, isSpinning = True, digitCount = 3,
       spinMode = ALL_AT_ONCE, spinDuration = 5000, manualRevealMode = CLICK,
       autoStopMode = AUTO_STOP_MANUAL, isManualSpinActive = False\<rparr>"
  let ?s = "\<lparr>digitSpinningState = [True, True, True], digitStoppedState = [False, False, False],
          manualSpinStarted = False, pendingClickIndex = None, spinningDigitCount = 0,
          prevIsManualSpinActive = False\<rparr>"
  have b1: "spinMode ?b = ALL_AT_ONCE" and b2: "autoStopMode ?b = AUTO_STOP_MANUAL" by simp_all
  have c1: "spinMode ?c = ALL_AT_ONCE" and c2: "autoStopMode ?c = AUTO_STOP_MANUAL" by simp_all
  have r: "replicate 3 True = [True, True, True]" by code_simp
  from reveal_all_at_once [OF b1 b2, of ?s] reveal_all_at_once [OF c1 c2, of ?s]
  show ?thesis by (simp add: r)
qed

subsection \<open>The sequential schedule\<close>

lemma runCallbacks_append:
  "runCallbacks (xs @ ys) s =
     (fst (runCallbacks ys (fst (runCallbacks xs s))),
      snd (runCallbacks xs s) @ snd (runCallbacks ys (fst (runCallbacks xs s))))"
  by (induction xs arbitrary: s) (simp_all add: Let_def)

text \<open>A test that is closed downwards selects an initial segment.\<close>

lemma filter_upt_prefix:
  assumes "\<And>i j. i \<le> j \<Longrightarrow> P j \<Longrightarrow> P i"
  shows "filter P [0 ..< n] = [0 ..< length (filter P [0 ..< n])]"
proof (induction n)
  case 0
  show ?case by simp
next
  case (Suc n)
  show ?case
  proof (cases "P n")
    case True
    have "P i" if "i < n" for i
      using assms [of i n] that True by simp
    then have "filter P [0 ..< n] = [0 ..< n]" by simp
    then show ?thesis using True by simp
  next
    case False
    then show ?thesis using Suc by simp
  qed
qed

lemma filter_upt_prefix_mem:
  assumes "\<And>i j. i \<le> j \<Longrightarrow> P j \<Longrightarrow> P i" and "i < n"
  shows "i < length (filter P [0 ..< n]) \<longleftrightarrow> P i"
proof -
  have "i \<in> set (filter P [0 ..< n]) \<longleftrightarrow> i \<in> set [0 ..< length (filter P [0 ..< n])]"
    using filter_upt_prefix [of P n, OF assms(1)] by simp
  then show ?thesis using assms(2) by simp
qed

lemma length_filter_upt_le: "length (filter P [0 ..< n]) \<le> n"
  using length_filter_le [of P "[0 ..< n]"] by simp

text \<open>Running the first \<open>k\<close> sequential callbacks.\<close>

lemma runCallbacks_sequential:
  "k \<le> n \<Longrightarrow>
   (\<forall>i. readAt (digitStoppedState (fst (runCallbacks (map (\<lambda>i. SequentialStop i n) [0 ..< k]) s))) i
        = (readAt (digitStoppedState s) i \<or> i < k))
   \<and> digitSpinningState (fst (runCallbacks (map (\<lambda>i. SequentialStop i n) [0 ..< k]) s))
        = digitSpinningState s
   \<and> count_list (snd (runCallbacks (map (\<lambda>i. SequentialStop i n) [0 ..< k]) s)) StopDigit = k
   \<and> count_list (snd (runCallbacks (map (\<lambda>i. SequentialStop i n) [0 ..< k]) s)) Finished
        = (if 0 < n \<and> k = n then 1 else 0)"
proof (induction k)
  case 0
  then show ?case by auto
next
  case (Suc k)
  then have IH: "(\<forall>i. readAt (digitStoppedState (fst (runCallbacks (map (\<lambda>i. SequentialStop i n) [0 ..< k]) s))) i
        = (readAt (digitStoppedState s) i \<or> i < k))
   \<and> digitSpinningState (fst (runCallbacks (map (\<lambda>i. SequentialStop i n) [0 ..< k]) s))
        = digitSpinningState s
   \<and> count_list (snd (runCallbacks (map (\<lambda>i. SequentialStop i n) [0 ..< k]) s)) StopDigit = k
   \<and> count_list (snd (runCallbacks (map (\<lambda>i. SequentialStop i n) [0 ..< k]) s)) Finished = 0"
    by simp
  have last: "(int k = int n - 1) = (Suc k = n)" by auto
  show ?case
    using IH Suc.prems
    by (auto simp: runCallbacks_append Let_def readAt_writeAt last less_Suc_eq)
qed

lemma dueTimers_sequential:
  assumes "0 \<le> d"
  shows "dueTimers t (map (\<lambda>i. (d * (int i + 1), SequentialStop i n)) [0 ..< n]) =
         map (\<lambda>i. SequentialStop i n) [0 ..< length (filter (\<lambda>i. d * (int i + 1) \<le> t) [0 ..< n])]"
proof -
  let ?ts = "map (\<lambda>i. (d * (int i + 1), SequentialStop i n)) [0 ..< n]"
  have due: "dueTime (d * (int i + 1), cb) = d * (int i + 1)" for i cb
    using assms by (simp add: dueTime_def)
  have m: "map dueTime ?ts = map (\<lambda>i. d * (int i + 1)) [0 ..< n]"
    by (simp add: due comp_def)
  have "sorted (map (\<lambda>i. d * (int i + 1)) [0 ..< n])"
    using assms by (auto simp: sorted_map intro!: sorted_wrt_mono_rel [OF _ sorted_upt] mult_left_mono)
  then have "sorted (map dueTime ?ts)"
    unfolding m .
  then have "sort_key dueTime ?ts = ?ts"
    by (rule sort_key_id_if_sorted)
  moreover have "filter (\<lambda>tm. dueTime tm \<le> t) ?ts =
      map (\<lambda>i. (d * (int i + 1), SequentialStop i n)) (filter (\<lambda>i. d * (int i + 1) \<le> t) [0 ..< n])"
    by (simp add: filter_map comp_def due)
  moreover have "filter (\<lambda>i. d * (int i + 1) \<le> t) [0 ..< n] =
      [0 ..< length (filter (\<lambda>i. d * (int i + 1) \<le> t) [0 ..< n])]"
  proof (rule filter_upt_prefix)
    fix i j :: nat
    assume "i \<le> j" and "d * (int j + 1) \<le> t"
    moreover from \<open>i \<le> j\<close> have "d * (int i + 1) \<le> d * (int j + 1)"
      using assms by (intro mult_left_mono) auto
    ultimately show "d * (int i + 1) \<le> t" by linarith
  qed
  ultimately show ?thesis
    unfolding dueTimers_def by (simp add: comp_def)
qed

text \<open>
  Claim C5. In \<open>SEQUENTIAL\<close> mode, spinning with a target number and a duration that is not
  negative, the effect registers for digit \<open>i\<close> a timeout of \<open>spinDuration * (i + 1)\<close>
  milliseconds; \<open>t\<close> milliseconds later exactly the digits whose time has come are stopped
  (beside those stopped before), each stop has called \<open>onStopDigit\<close>, and \<open>onFinished\<close> has
  been called once if the time of the last digit, \<open>spinDuration * digitCount\<close>, has come,
  and not at all before.
\<close>

theorem sequential_schedule:
  assumes "spinMode p = SEQUENTIAL" and "isSpinning p" and "truthy (targetNumber p)"
    and "0 \<le> spinDuration p"
  shows "map fst (autoStopEffect p) =
           map (\<lambda>i. spinDuration p * (int i + 1)) [0 ..< digitCount p]
       \<and> (\<forall>i < digitCount p.
            readAt (digitStoppedState (fst (elapse t (autoStopEffect p) s))) i
              = (readAt (digitStoppedState s) i \<or> spinDuration p * (int i + 1) \<le> t))
       \<and> count_list (snd (elapse t (autoStopEffect p) s)) StopDigit
            = length (filter (\<lambda>i. spinDuration p * (int i + 1) \<le> t) [0 ..< digitCount p])
       \<and> count_list (snd (elapse t (autoStopEffect p) s)) Finished
            = (if 0 < digitCount p \<and> spinDuration p * int (digitCount p) \<le> t then 1 else 0)"
proof -
  let ?n = "digitCount p" and ?d = "spinDuration p"
  let ?P = "\<lambda>i. ?d * (int i + 1) \<le> t"
  let ?k = "length (filter ?P [0 ..< ?n])"
  have eff: "autoStopEffect p = map (\<lambda>i. (?d * (int i + 1), SequentialStop i ?n)) [0 ..< ?n]"
    using assms by (simp add: autoStopEffect_def)
  have el: "elapse t (autoStopEffect p) s = runCallbacks (map (\<lambda>i. SequentialStop i ?n) [0 ..< ?k]) s"
    unfolding elapse_def eff using assms(4) by (simp only: dueTimers_sequential)
  have down: "?P i" if "i \<le> j" and "?P j" for i j
  proof -
    from that(1) have "?d * (int i + 1) \<le> ?d * (int j + 1)"
      using assms(4) by (intro mult_left_mono) auto
    with that(2) show ?thesis by linarith
  qed
  have kn: "?k \<le> ?n" by (rule length_filter_upt_le)
  have mem: "i < ?k \<longleftrightarrow> ?P i" if "i < ?n" for i
    by (rule filter_upt_prefix_mem [of ?P]) (use that down in auto)
  have fin: "(0 < ?n \<and> ?k = ?n) \<longleftrightarrow> (0 < ?n \<and> ?d * int ?n \<le> t)"
  proof (cases "0 < ?n")
    case True
    then have "?n - 1 < ?k \<longleftrightarrow> ?P (?n - 1)" by (intro mem) simp
    moreover have "int (?n - 1) + 1 = int ?n" using True by simp
    ultimately show ?thesis using kn True by auto
  qed simp
  note run = runCallbacks_sequential [OF kn, of s]
  show ?thesis
    unfolding el using run mem fin by (simp add: eff comp_def)
qed

theorem sequential_schedule_witness:
  "spinMode \<lparr>targetNumber = Some ''042'', isSpinning = True, digitCount = 3,
       spinMode = SEQUENTIAL, spinDuration = 1000, manualRevealMode = CLICK,
       autoStopMode = AUTO_STOP_MANUAL, isManualSpinActive = False\<rparr> = SEQUENTIAL
   \<and> isSpinning \<lparr>targetNumber = Some ''042'', isSpinning = True, digitCount = 3,
       spinMode = SEQUENTIAL, spinDuration = 1000, manualRevealMode = CLICK,
       autoStopMode = AUTO_STOP_MANUAL, isManualSpinActive = False\<rparr>
   \<and> truthy (Some ''042'')
   \<and> 0 \<le> spinDuration \<lparr>targetNumber = Some ''042'', isSpinning = True, digitCount = 3,
       spinMode = SEQUENTIAL, spinDuration = 1000, manualRevealMode = CLICK,
       autoStopMode = AUTO_STOP_MANUAL, isManualSpinActive = False\<rparr>
   \<and> map fst (autoStopEffect \<lparr>targetNumber = Some ''042'', isSpinning = True, digitCount = 3,
       spinMode = SEQUENTIAL, spinDuration = 1000, manualRevealMode = CLICK,
       autoStopMode = AUTO_STOP_MANUAL, isManualSpinActive = False\<rparr>) = [1000, 2000, 3000]
   \<and> digitStoppedState (fst (elapse 2999
       (autoStopEffect \<lparr>targetNumber = Some ''042'', isSpinning = True, digitCount = 3,
          spinMode = SEQUENTIAL, spinDuration = 1000, manualRevealMode = CLICK,
          autoStopMode = AUTO_STOP_MANUAL, isManualSpinActive = False\<rparr>)
       \<lparr>digitSpinningState = [True, True, True], digitStoppedState = [False, False, False],
        manualSpinStarted = False, pendingClickIndex = None, spinningDigitCount = 0,
        prevIsManualSpinActive = False\<rparr>)) = [True, True, False]
   \<and> count_list (snd (elapse 2999
       (autoStopEffect \<lparr>targetNumber = Some ''042'', isSpinning = True, digitCount = 3,
          spinMode = SEQUENTIAL, spinDuration = 1000, manualRevealMode = CLICK,
          autoStopMode = AUTO_STOP_MANUAL, isManualSpinActive = False\<rparr>)
       \<lparr>digitSpinningState = [True, True, True], digitStoppedState = [False, False, False],
        manualSpinStarted = False, pendingClickIndex = None, spinningDigitCount = 0,
        prevIsManualSpinActive = False\<rparr>)) Finished = 0
   \<and> count_list (snd (elapse 3000
       (autoStopEffect \<lparr>targetNumber = Some ''042'', isSpinning = True, digitCount = 3,
          spinMode = SEQUENTIAL, spinDuration = 1000, manualRevealMode = CLICK,
          autoStopMode = AUTO_STOP_MANUAL, isManualSpinActive = False\<rparr>)
       \<lparr>digitSpinningState = [True, True, True], digitStoppedState = [False, False, False],
        manualSpinStarted = False, pendingClickIndex = None, spinningDigitCount = 0,
        prevIsManualSpinActive = False\<rparr>)) Finished = 1"
proof -
  let ?b = "\<lparr>targetNumber = Some ''042'', isSpinning = True, digitCount = 3,
       spinMode = SEQUENTIAL, spinDuration = 1000, manualRevealMode = CLICK,
       autoStopMode = AUTO_STOP_MANUAL, isManualSpinActive = False\<rparr>"
  let ?s = "\<lparr>digitSpinningState = [True, True, True], digitStoppedState = [False, False, False],
        manualSpinStarted = False, pendingClickIndex = None, spinningDigitCount = 0,
        prevIsManualSpinActive = False\<rparr>"
  have h1: "spinMode ?b = SEQUENTIAL" and h2: "isSpinning ?b"
    and h3: "truthy (targetNumber ?b)" and h4: "0 \<le> spinDuration ?b"
    by simp_all
  have u: "[0 ..< 3] = [0, Suc 0, Suc (Suc 0)]" by code_simp
  have e: "digitStoppedState (fst (elapse 2999 (autoStopEffect ?b) ?s)) = [True, True, False]"
    by code_simp
  from sequential_schedule [OF h1 h2 h3 h4, of 2999 ?s]
  have a: "count_list (snd (elapse 2999 (autoStopEffect ?b) ?s)) Finished = 0"
    by simp
  from sequential_schedule [OF h1 h2 h3 h4, of 3000 ?s]
  have b: "count_list (snd (elapse 3000 (autoStopEffect ?b) ?s)) Finished = 1"
    and c: "map fst (autoStopEffect ?b) = [1000, 2000, 3000]"
    by (simp_all add: u)
  show ?thesis using h1 h2 h4 a b c e by simp
qed

subsection \<open>The click protocol\<close>

text \<open>
  Claim C7, where the code departs from it. The claim says that in click mode at most one
  digit spins and that, while one spins, a click on another digit is rejected; the comment
  above \<open>isDigitClickable\<close> says the same ("Only ONE digit can spin at a time"). The
  component keeps the state of its digits when \<open>manualRevealMode\<close> alone changes: the
  reset effect depends on \<open>digitCount\<close> and \<open>spinMode\<close>. A session of the timer protocol
  has started all three digits; the parent then renders the component for a prize in click
  mode with the same number of digits (the prize is chosen in the side bar, which stays
  enabled during a session), first with the target number it had and then with the number
  of the winner that prize has. The component is now in click mode with three digits
  spinning, and a click on digit 1 is accepted: it stops that digit while the digits 0 and
  2 spin.
\<close>

theorem timer_session_switched_to_click:
  "runEvents
     [ReceiveProps \<lparr>targetNumber = Some ''042'', isSpinning = True, digitCount = 3,
        spinMode = MANUAL, spinDuration = 15000, manualRevealMode = TIMER,
        autoStopMode = AUTO_STOP_MANUAL, isManualSpinActive = True\<rparr>,
      ReceiveProps \<lparr>targetNumber = Some ''042'', isSpinning = True, digitCount = 3,
        spinMode = MANUAL, spinDuration = 15000, manualRevealMode = CLICK,
        autoStopMode = AUTO_STOP_MANUAL, isManualSpinActive = True\<rparr>,
      ReceiveProps \<lparr>targetNumber = Some ''017'', isSpinning = True, digitCount = 3,
        spinMode = MANUAL, spinDuration = 15000, manualRevealMode = CLICK,
        autoStopMode = AUTO_STOP_MANUAL, isManualSpinActive = True\<rparr>]
     (fst (mount \<lparr>targetNumber = None, isSpinning = False, digitCount = 3,
        spinMode = MANUAL, spinDuration = 15000, manualRevealMode = TIMER,
        autoStopMode = AUTO_STOP_MANUAL, isManualSpinActive = False\<rparr>))
   = (\<lparr>targetNumber = Some ''017'', isSpinning = True, digitCount = 3,
        spinMode = MANUAL, spinDuration = 15000, manualRevealMode = CLICK,
        autoStopMode = AUTO_STOP_MANUAL, isManualSpinActive = True\<rparr>,
      \<lparr>digitSpinningState = [True, True, True], digitStoppedState = [False, False, False],
       manualSpinStarted = True, pendingClickIndex = None, spinningDigitCount = 3,
       prevIsManualSpinActive = True\<rparr>)
   \<and> clickMode \<lparr>targetNumber = Some ''017'', isSpinning = True, digitCount = 3,
        spinMode = MANUAL, spinDuration = 15000, manualRevealMode = CLICK,
        autoStopMode = AUTO_STOP_MANUAL, isManualSpinActive = True\<rparr>
   \<and> isDigitClickable \<lparr>targetNumber = Some ''017'', isSpinning = True, digitCount = 3,
        spinMode = MANUAL, spinDuration = 15000, manualRevealMode = CLICK,
        autoStopMode = AUTO_STOP_MANUAL, isManualSpinActive = True\<rparr>
      \<lparr>digitSpinningState = [True, True, True], digitStoppedState = [False, False, False],
       manualSpinStarted = True, pendingClickIndex = None, spinningDigitCount = 3,
       prevIsManualSpinActive = True\<rparr> 1
   \<and> step (ClickDigit 1)
      (\<lparr>targetNumber = Some ''017'', isSpinning = True, digitCount = 3,
        spinMode = MANUAL, spinDuration = 15000, manualRevealMode = CLICK,
        autoStopMode = AUTO_STOP_MANUAL, isManualSpinActive = True\<rparr>,
      \<lparr>digitSpinningState = [True, True, True], digitStoppedState = [False, False, False],
       manualSpinStarted = True, pendingClickIndex = None, spinningDigitCount = 3,
       prevIsManualSpinActive = True\<rparr>)
   = ((\<lparr>targetNumber = Some ''017'', isSpinning = True, digitCount = 3,
        spinMode = MANUAL, spinDuration = 15000, manualRevealMode = CLICK,
        autoStopMode = AUTO_STOP_MANUAL, isManualSpinActive = True\<rparr>,
      \<lparr>digitSpinningState = [True, False, True], digitStoppedState = [False, True, False],
       manualSpinStarted = True, pendingClickIndex = None, spinningDigitCount = 2,
       prevIsManualSpinActive = True\<rparr>), [StopDigit, DigitSpinStop True])"
  by code_simp

subsection \<open>The two flags of a digit\<close>


subsection \<open>Effects, one by one\<close>



lemma allStoppedEffect_fields [simp]:
  "digitSpinningState (fst (allStoppedEffect p r q)) = digitSpinningState q"
  "digitStoppedState (fst (allStoppedEffect p r q)) = digitStoppedState q"
  "pendingClickIndex (fst (allStoppedEffect p r q)) = pendingClickIndex q"
  "prevIsManualSpinActive (fst (allStoppedEffect p r q)) = prevIsManualSpinActive q"
  by (simp_all add: allStoppedEffect_def)

lemma pendingClickEffect_fields [simp]:
  "digitStoppedState (fst (pendingClickEffect p r q)) = digitStoppedState q"
  "prevIsManualSpinActive (fst (pendingClickEffect p r q)) = prevIsManualSpinActive q"
  by (simp_all add: pendingClickEffect_def startDigitSpin_def Let_def split: option.splits)

lemma manualTimerEffect_fields [simp]:
  "digitStoppedState (fst (manualTimerEffect p q)) = digitStoppedState q"
  "pendingClickIndex (fst (manualTimerEffect p q)) = pendingClickIndex q"
  "prevIsManualSpinActive (fst (manualTimerEffect p q)) = prevIsManualSpinActive q"
  by (simp_all add: manualTimerEffect_def)

lemma clearedTargetEffect_prev [simp]:
  "prevIsManualSpinActive (clearedTargetEffect p r q) = prevIsManualSpinActive q"
  by (simp add: clearedTargetEffect_def)

lemma autoSyncEffect_prev [simp]:
  "prevIsManualSpinActive (autoSyncEffect p q) = prevIsManualSpinActive q"
  by (simp add: autoSyncEffect_def)

lemma resetEffect_prev [simp]:
  "prevIsManualSpinActive (resetEffect p q) = prevIsManualSpinActive q"
  by (simp add: resetEffect_def)

lemma sessionStartEffect_prev [simp]:
  "prevIsManualSpinActive (sessionStartEffect p q) = isManualSpinActive p"
  by (simp add: sessionStartEffect_def)

lemma statePass_prev [simp]:
  "prevIsManualSpinActive (fst (statePass p s)) = prevIsManualSpinActive s"
  by (simp add: statePass_def)




subsection \<open>The invariant of the operator-paced mode\<close>





lemma allClear_allStoppedEffect [simp]: "allClear (fst (allStoppedEffect p r q)) = allClear q"
  by (simp add: allClear_def)










lemma pending_sessionStartEffect [simp]:
  "pendingClickIndex (sessionStartEffect p q) = pendingClickIndex q"
  by (simp add: sessionStartEffect_def)

lemma allClear_manualTimerEffect [simp]: "allClear (fst (manualTimerEffect p q)) = allClear q"
  by (simp add: allClear_def)



text \<open>A render that neither resets nor starts the timer protocol.\<close>

lemma notBoth_fields [simp]:
  "notBoth (s\<lparr>manualSpinStarted := b\<rparr>) = notBoth s"
  "notBoth (s\<lparr>spinningDigitCount := c\<rparr>) = notBoth s"
  "notBoth (s\<lparr>prevIsManualSpinActive := b\<rparr>) = notBoth s"
  "notBoth (s\<lparr>pendingClickIndex := k\<rparr>) = notBoth s"
  by (simp_all add: notBoth_def)












subsection \<open>The invariant along a history\<close>






lemma fireTimer_prev [simp]:
  "prevIsManualSpinActive (fst (fireTimer cb s)) = prevIsManualSpinActive s"
  by (cases cb) simp_all

lemma click_prev [simp]:
  "prevIsManualSpinActive (fst (click p s idx)) = prevIsManualSpinActive s"
  by (simp add: click_def handleDigitClick_def startDigitSpin_def stopDigitSpin_def Let_def)

lemma revealResult_prev [simp]:
  "prevIsManualSpinActive (fst (revealResult p s)) = prevIsManualSpinActive s"
  by (simp add: revealResult_def)









subsection \<open>A stopped digit spins again only after all are cleared\<close>











lemma keeps_allStoppedEffect [simp]: "keeps r (fst (allStoppedEffect p r' q)) = keeps r q"
  by (simp add: keeps_def)






end
